theory Spec2Isabelle
  imports Complex_Main
begin

section \<open>The simulated car environment (arduino\_car\_ai/environment.py)\<close>

text \<open>
  Python floats are modelled as \<^typ>\<open>real\<close> numbers and \<open>math.cos\<close>, \<open>math.sin\<close>,
  \<open>math.sqrt\<close> as the real functions, so rounding is idealised away; Python integers are
  \<^typ>\<open>int\<close>. Rendering only reads the state and is left out.
\<close>

subsection \<open>pygame.Rect and colliderect\<close>

text \<open>
  \<open>pygame.Rect(x, y, w, h)\<close> stores four C integers; a float argument is converted by a C
  cast, which truncates towards zero.
\<close>

datatype rect = Rect (rect_x: int) (rect_y: int) (rect_w: int) (rect_h: int)

definition trunc :: "real \<Rightarrow> int" where
  "trunc r = (if r < 0 then \<lceil>r\<rceil> else \<lfloor>r\<rfloor>)"

text \<open>
  \<open>A.colliderect(B)\<close> of pygame 2: rectangles of zero width or height collide with nothing,
  otherwise the open overlap test on the normalised edges.
\<close>

definition colliderect :: "rect \<Rightarrow> rect \<Rightarrow> bool" where
  "colliderect A B =
     (if rect_w A = 0 \<or> rect_h A = 0 \<or> rect_w B = 0 \<or> rect_h B = 0 then False
      else min (rect_x A) (rect_x A + rect_w A) < max (rect_x B) (rect_x B + rect_w B)
         \<and> min (rect_y A) (rect_y A + rect_h A) < max (rect_y B) (rect_y B + rect_h B)
         \<and> max (rect_x A) (rect_x A + rect_w A) > min (rect_x B) (rect_x B + rect_w B)
         \<and> max (rect_y A) (rect_y A + rect_h A) > min (rect_y B) (rect_y B + rect_h B))"

subsection \<open>Configuration set by \<open>__init__\<close>\<close>

definition width :: int where "width = 800"
definition height :: int where "height = 600"
definition car_size :: int where "car_size = 30"
definition sensor_range :: int where "sensor_range = 200"
definition max_speed :: int where "max_speed = 5"
definition min_speed :: int where "min_speed = 1"

subsection \<open>The mutable state of \<open>CarSimulatorEnv\<close>\<close>

record env =
  obstacles :: "rect list"
  car_x :: real
  car_y :: real
  car_angle :: real
  car_speed :: int
  car_velocity :: real
  steps :: int
  total_distance :: real
  last_position :: "real \<times> real"
  stationary_steps :: int

subsection \<open>generate\_obstacles\<close>

text \<open>
  The four border walls, then one rectangle per round of the loop. The four
  \<open>random.randint\<close> draws of each round are the parameter \<open>draws\<close>.
\<close>

definition border_walls :: "rect list" where
  "border_walls =
     [Rect 0 0 width 10, Rect 0 0 10 height,
      Rect 0 (height - 10) width 10, Rect (width - 10) 0 10 height]"

definition generate_obstacles :: "(int \<times> int \<times> int \<times> int) list \<Rightarrow> rect list" where
  "generate_obstacles draws =
     border_walls @ map (\<lambda>(x, y, w, h). Rect x y w h) draws"

subsection \<open>cast\_ray, get\_distances, get\_state\<close>

text \<open>
  The body of the loop of \<open>cast_ray\<close> at one distance \<open>d\<close> (the source's \<open>dist\<close>):
  does the ray stop here?
\<close>

definition ray_hit :: "env \<Rightarrow> real \<Rightarrow> int \<Rightarrow> bool" where
  "ray_hit s angle d =
     (let x = car_x s + real_of_int d * cos angle;
          y = car_y s + real_of_int d * sin angle
      in if x < 0 \<or> x > real_of_int width \<or> y < 0 \<or> y > real_of_int height then True
         else list_ex (\<lambda>obstacle. colliderect obstacle (Rect (trunc (x - 1)) (trunc (y - 1)) 2 2))
                (obstacles s))"

fun cast_ray_loop :: "env \<Rightarrow> real \<Rightarrow> int list \<Rightarrow> int" where
  "cast_ray_loop s angle [] = sensor_range"
| "cast_ray_loop s angle (d # ds) =
     (if ray_hit s angle d then d else cast_ray_loop s angle ds)"

text \<open>\<open>range(1, self.sensor_range)\<close> is the list of integers from 1 to \<open>sensor_range - 1\<close>.\<close>

definition cast_ray :: "env \<Rightarrow> real \<Rightarrow> int" where
  "cast_ray s angle = cast_ray_loop s angle [1 .. sensor_range - 1]"

definition get_distances :: "env \<Rightarrow> real list" where
  "get_distances s =
     map (\<lambda>angle_offset.
            real_of_int (min (cast_ray s (car_angle s + angle_offset)) 200) / 200)
         [- pi / 3, 0, pi / 3]"

definition get_state :: "env \<Rightarrow> real list" where
  "get_state s = get_distances s @ [real_of_int (car_speed s) / 5]"

subsection \<open>reset\<close>

text \<open>
  \<open>random.uniform(0, 2 * math.pi)\<close> computes \<open>a + (b - a) * random()\<close>; the draw
  \<open>u = random()\<close>, a number in \<open>[0, 1)\<close>, is the second parameter.
\<close>

definition uniform :: "real \<Rightarrow> real \<Rightarrow> real \<Rightarrow> real" where
  "uniform a b u = a + (b - a) * u"

definition reset :: "env \<Rightarrow> real \<Rightarrow> env \<times> real list" where
  "reset s u =
     (let s' = s\<lparr>car_x := real_of_int (width div 2),
                 car_y := real_of_int (height div 2),
                 car_angle := uniform 0 (2 * pi) u,
                 car_speed := 3,
                 car_velocity := 0,
                 steps := 0,
                 total_distance := 0,
                 last_position := (real_of_int (width div 2), real_of_int (height div 2)),
                 stationary_steps := 0\<rparr>
      in (s', get_state s'))"

subsection \<open>check\_collision\<close>

definition check_collision :: "env \<Rightarrow> bool" where
  "check_collision s =
     (let car_rect = Rect (trunc (car_x s - real_of_int (car_size div 2)))
                          (trunc (car_y s - real_of_int (car_size div 2)))
                          car_size car_size
      in if car_x s < real_of_int (car_size div 2)
            \<or> car_x s > real_of_int (width - car_size div 2)
            \<or> car_y s < real_of_int (car_size div 2)
            \<or> car_y s > real_of_int (height - car_size div 2)
         then True
         else list_ex (\<lambda>obstacle. colliderect car_rect obstacle) (obstacles s))"

subsection \<open>step\<close>

text \<open>The \<open>if\<close>/\<open>elif\<close> chain of \<open>step\<close>; an index that matches no branch changes nothing.\<close>

definition apply_action :: "env \<Rightarrow> int \<Rightarrow> env" where
  "apply_action s action =
     (if action = 0 then s\<lparr>car_velocity := 2 * real_of_int (car_speed s)\<rparr>
      else if action = 1 then
        s\<lparr>car_angle := car_angle s - 0.1, car_velocity := 0.5 * real_of_int (car_speed s)\<rparr>
      else if action = 2 then
        s\<lparr>car_angle := car_angle s + 0.1, car_velocity := 0.5 * real_of_int (car_speed s)\<rparr>
      else if action \<ge> 3 \<and> action \<le> 7 then
        s\<lparr>car_speed := action - 2, car_velocity := 1 * real_of_int (action - 2)\<rparr>
      else s)"

text \<open>The position update.\<close>

definition update_position :: "env \<Rightarrow> env" where
  "update_position s =
     s\<lparr>car_x := car_x s + car_velocity s * cos (car_angle s),
       car_y := car_y s + car_velocity s * sin (car_angle s)\<rparr>"

text \<open>The state on which \<open>step\<close> calls \<open>check_collision\<close>, and the value of \<open>collision\<close>.\<close>

definition advanced :: "env \<Rightarrow> int \<Rightarrow> env" where
  "advanced s action = update_position (apply_action (s\<lparr>steps := steps s + 1\<rparr>) action)"

definition collision :: "env \<Rightarrow> int \<Rightarrow> bool" where
  "collision s action = check_collision (advanced s action)"

text \<open>The state after the position has been reverted, if it is, and \<open>distance_moved\<close>.\<close>

definition settled :: "env \<Rightarrow> int \<Rightarrow> env" where
  "settled s action =
     (if collision s action then (advanced s action)\<lparr>car_x := car_x s, car_y := car_y s\<rparr>
      else advanced s action)"

definition distance_moved :: "env \<Rightarrow> int \<Rightarrow> real" where
  "distance_moved s action =
     sqrt ((car_x (settled s action) - car_x s)\<^sup>2 + (car_y (settled s action) - car_y s)\<^sup>2)"

text \<open>The state at the end of \<open>step\<close>: distance accumulated, low-motion counter updated.\<close>

definition next_env :: "env \<Rightarrow> int \<Rightarrow> env" where
  "next_env s action =
     (let s1 = settled s action;
          s2 = s1\<lparr>total_distance := total_distance s1 + distance_moved s action\<rparr>
      in if distance_moved s action < 0.5
         then s2\<lparr>stationary_steps := stationary_steps s2 + 1\<rparr>
         else s2\<lparr>stationary_steps := 0\<rparr>)"

definition reward_of :: "env \<Rightarrow> int \<Rightarrow> real" where
  "reward_of s action =
     (let s' = next_env s action;
          r0 = 0;
          r1 = r0 + distance_moved s action * 0.1;
          min_distance = min_list (get_distances s');
          r2 = (if min_distance < 0.2 then r1 - (0.2 - min_distance) * 5 else r1);
          r3 = (if collision s action then r2 - 10 else r2);
          r4 = (if stationary_steps s' > 10 then r3 - 1 else r3);
          r5 = (if car_speed s' \<ge> 3 then r4 + 0.1 else r4)
      in r5)"

definition done_of :: "env \<Rightarrow> int \<Rightarrow> bool" where
  "done_of s action =
     (collision s action \<or> steps (next_env s action) > 1000
      \<or> stationary_steps (next_env s action) > 50)"

text \<open>
  \<open>step\<close> returns the tuple \<open>(state, reward, done, {})\<close>; the model returns the new
  environment with it and leaves the empty \<open>info\<close> dictionary out.
\<close>

definition step :: "env \<Rightarrow> int \<Rightarrow> env \<times> real list \<times> real \<times> bool" where
  "step s action =
     (next_env s action, get_state (next_env s action), reward_of s action, done_of s action)"


abbreviation env_after :: "env \<Rightarrow> int \<Rightarrow> env" where
  "env_after s a \<equiv> fst (step s a)"

abbreviation state_after :: "env \<Rightarrow> int \<Rightarrow> real list" where
  "state_after s a \<equiv> fst (snd (step s a))"

abbreviation reward_after :: "env \<Rightarrow> int \<Rightarrow> real" where
  "reward_after s a \<equiv> fst (snd (snd (step s a)))"

abbreviation done_after :: "env \<Rightarrow> int \<Rightarrow> bool" where
  "done_after s a \<equiv> snd (snd (snd (step s a)))"

text \<open>
  A call of \<open>step\<close> as its caller sees it: a returned tuple (\<open>Inr\<close>) or a raised
  exception (\<open>Inl\<close>). The body of \<open>step\<close> has no \<open>raise\<close> and no \<open>assert\<close>, and
  none of its operations fails on an integer action, so every call returns.
\<close>

datatype py_error = ValueError | TypeError

definition step_call :: "env \<Rightarrow> int \<Rightarrow> py_error + (env \<times> real list \<times> real \<times> bool)" where
  "step_call s action = Inr (step s action)"

subsection \<open>The constructor\<close>

text \<open>
  \<open>__init__\<close> generates the obstacles and calls \<open>reset\<close>, which assigns every other
  field; the zeros below stand for the attributes that do not exist before that call.
\<close>

definition init :: "(int \<times> int \<times> int \<times> int) list \<Rightarrow> real \<Rightarrow> env" where
  "init draws u =
     fst (reset \<lparr>obstacles = generate_obstacles draws, car_x = 0, car_y = 0, car_angle = 0,
                 car_speed = 0, car_velocity = 0, steps = 0, total_distance = 0,
                 last_position = (0, 0), stationary_steps = 0\<rparr> u)"

subsection \<open>Episodes\<close>

text \<open>
  The loop of \<open>train_agent\<close> and \<open>test_model_in_simulator\<close>: \<open>state = env.reset()\<close>, then
  \<open>state, reward, done, _ = env.step(action)\<close> for each action chosen.
\<close>

fun play :: "env \<times> real list \<Rightarrow> int list \<Rightarrow> env \<times> real list" where
  "play so [] = so"
| "play so (a # as) = play (env_after (fst so) a, state_after (fst so) a) as"

definition episode :: "env \<Rightarrow> real \<Rightarrow> int list \<Rightarrow> env \<times> real list" where
  "episode s u as = play (reset s u) as"

text \<open>
  What is expected of an environment and the state vector returned with it: four components,
  each in \<open>[0, 1]\<close>, and a speed level in \<open>[1, 5]\<close>.
\<close>

definition observed_ok :: "env \<times> real list \<Rightarrow> bool" where
  "observed_ok so =
     (length (snd so) = 4 \<and> list_all (\<lambda>x. 0 \<le> x \<and> x \<le> 1) (snd so)
      \<and> 1 \<le> car_speed (fst so) \<and> car_speed (fst so) \<le> 5)"



subsection \<open>The proximity term of the reward, as the specification words it\<close>

definition proximity_penalty :: "real \<Rightarrow> real" where
  "proximity_penalty m = (if m < 0.2 then 5 * (0.2 - m) else 0)"

section \<open>The deployment side (arduino\_car\_ai/arduino\_controller.py)\<close>

definition action_map :: "int \<rightharpoonup> string" where
  "action_map =
     [0 \<mapsto> ''W'', 1 \<mapsto> ''A'', 2 \<mapsto> ''D'', 3 \<mapsto> ''S'',
      4 \<mapsto> ''1'', 5 \<mapsto> ''2'', 6 \<mapsto> ''3'', 7 \<mapsto> ''4'', 8 \<mapsto> ''5'']"

text \<open>Python's \<open>needle in hay\<close> on strings: \<open>needle\<close> occurs in \<open>hay\<close> as a substring.\<close>

fun str_in :: "string \<Rightarrow> string \<Rightarrow> bool" where
  "str_in needle [] = (needle = [])"
| "str_in needle (c # cs) = (take (length needle) (c # cs) = needle \<or> str_in needle cs)"

text \<open>
  \<open>int(command)\<close> on a string of decimal digits; the empty string raises \<open>ValueError\<close>.
  Only substrings of \<open>'12345'\<close> reach it.
\<close>

definition py_int :: "string \<Rightarrow> py_error + int" where
  "py_int str =
     (if str = [] then Inl ValueError
      else Inr (foldl (\<lambda>n c. 10 * n + (of_char c - 48)) 0 str))"

text \<open>
  What \<open>send_command\<close> does to \<open>current_speed\<close> on an open connection: a speed command
  sets it; the bare \<open>except\<close> swallows a failing \<open>int\<close>, leaving the speed as it was.
\<close>

definition send_command_speed :: "int \<Rightarrow> string \<Rightarrow> int" where
  "send_command_speed current_speed command =
     (if str_in command ''12345''
      then (case py_int command of Inr k \<Rightarrow> k | Inl e \<Rightarrow> current_speed)
      else current_speed)"

section \<open>Concrete environments\<close>

definition arena :: env where
  "arena = \<lparr>obstacles = border_walls, car_x = 400, car_y = 300, car_angle = 0,
             car_speed = 3, car_velocity = 0, steps = 0, total_distance = 0,
             last_position = (400, 300), stationary_steps = 0\<rparr>"


definition at_wall :: env where
  "at_wall = arena\<lparr>car_x := 780\<rparr>"

definition turning_at_wall :: env where
  "turning_at_wall = arena\<lparr>car_x := 784, car_angle := 0.1\<rparr>"

definition slow_car :: env where
  "slow_car = arena\<lparr>car_speed := 2\<rparr>"

section \<open>Frame lemmas for \<open>step\<close>\<close>

lemma steps_advanced: "steps (advanced s a) = steps s + 1"
  by (simp add: advanced_def update_position_def apply_action_def)

lemma steps_next_env: "steps (next_env s a) = steps s + 1"
  by (simp add: next_env_def Let_def settled_def steps_advanced)

lemma stationary_advanced: "stationary_steps (advanced s a) = stationary_steps s"
  by (simp add: advanced_def update_position_def apply_action_def)

lemma stationary_next_env:
  "stationary_steps (next_env s a) =
     (if distance_moved s a < 0.5 then stationary_steps s + 1 else 0)"
  by (simp add: next_env_def Let_def settled_def stationary_advanced)

lemma obstacles_advanced: "obstacles (advanced s a) = obstacles s"
  by (simp add: advanced_def update_position_def apply_action_def)

lemma obstacles_next_env: "obstacles (next_env s a) = obstacles s"
  by (simp add: next_env_def Let_def settled_def obstacles_advanced)

lemma car_x_next_env: "car_x (next_env s a) = car_x (settled s a)"
  by (simp add: next_env_def Let_def)

lemma car_y_next_env: "car_y (next_env s a) = car_y (settled s a)"
  by (simp add: next_env_def Let_def)

lemma car_angle_next_env: "car_angle (next_env s a) = car_angle (apply_action s a)"
  by (simp add: next_env_def Let_def settled_def advanced_def update_position_def
      apply_action_def)

lemma car_speed_next_env: "car_speed (next_env s a) = car_speed (apply_action s a)"
  by (simp add: next_env_def Let_def settled_def advanced_def update_position_def
      apply_action_def)

lemma car_velocity_next_env: "car_velocity (next_env s a) = car_velocity (apply_action s a)"
  by (simp add: next_env_def Let_def settled_def advanced_def update_position_def
      apply_action_def)


lemma check_collision_cong:
  "obstacles s = obstacles t \<Longrightarrow> car_x s = car_x t \<Longrightarrow> car_y s = car_y t \<Longrightarrow>
   check_collision s = check_collision t"
  by (simp add: check_collision_def)

lemma settled_collision:
  "collision s a \<Longrightarrow> car_x (settled s a) = car_x s \<and> car_y (settled s a) = car_y s"
  by (simp add: settled_def)

lemma distance_moved_collision: "collision s a \<Longrightarrow> distance_moved s a = 0"
  by (simp add: distance_moved_def settled_collision)

text \<open>
  Without a collision the car moves by its velocity along the heading, so the distance
  moved is the absolute value of the velocity.
\<close>

lemma distance_moved_free:
  assumes "\<not> collision s a"
  shows "distance_moved s a = \<bar>car_velocity (apply_action s a)\<bar>"
proof -
  let ?v = "car_velocity (apply_action s a)"
  let ?t = "car_angle (apply_action s a)"
  have x: "car_x (settled s a) - car_x s = ?v * cos ?t"
    using assms by (simp add: settled_def advanced_def update_position_def apply_action_def)
  have y: "car_y (settled s a) - car_y s = ?v * sin ?t"
    using assms by (simp add: settled_def advanced_def update_position_def apply_action_def)
  have "?v\<^sup>2 * (cos ?t)\<^sup>2 + ?v\<^sup>2 * (sin ?t)\<^sup>2 = ?v\<^sup>2 * ((cos ?t)\<^sup>2 + (sin ?t)\<^sup>2)"
    by (simp only: distrib_left)
  then have sq: "?v\<^sup>2 * (cos ?t)\<^sup>2 + ?v\<^sup>2 * (sin ?t)\<^sup>2 = ?v\<^sup>2"
    by simp
  show ?thesis
    by (simp add: distance_moved_def x y power_mult_distrib sq)
qed

text \<open>A car that is clear of every obstacle before a step is clear of them after it.\<close>

lemma no_penetration:
  "\<not> check_collision s \<Longrightarrow> \<not> check_collision (next_env s a)"
proof (cases "collision s a")
  case True
  assume free: "\<not> check_collision s"
  have "check_collision (next_env s a) = check_collision s"
    by (rule check_collision_cong)
       (simp_all add: obstacles_next_env car_x_next_env car_y_next_env settled_collision True)
  with free show ?thesis by simp
next
  case False
  have "check_collision (next_env s a) = check_collision (advanced s a)"
    by (rule check_collision_cong)
       (simp_all add: obstacles_next_env obstacles_advanced car_x_next_env car_y_next_env
          settled_def False)
  with False show ?thesis by (simp add: collision_def)
qed

section \<open>Steps of the concrete environments\<close>

lemma collision_at_wall: "collision at_wall 0"
  by (simp add: collision_def advanced_def at_wall_def arena_def apply_action_def
      update_position_def check_collision_def width_def height_def car_size_def)

lemma collision_turning: "collision turning_at_wall 1"
  by (simp add: collision_def advanced_def turning_at_wall_def arena_def apply_action_def
      update_position_def check_collision_def width_def height_def car_size_def)

lemma no_collision_slow: "\<not> collision slow_car 0"
  by (simp add: collision_def advanced_def slow_car_def arena_def apply_action_def
      update_position_def check_collision_def border_walls_def colliderect_def trunc_def
      width_def height_def car_size_def)

lemma distance_slow: "distance_moved slow_car 0 = 4"
  using distance_moved_free [OF no_collision_slow]
  by (simp add: apply_action_def slow_car_def arena_def)

lemma no_collision_arena_0: "\<not> collision arena 0"
  by (simp add: collision_def advanced_def arena_def apply_action_def
      update_position_def check_collision_def border_walls_def colliderect_def trunc_def
      width_def height_def car_size_def)

lemma no_collision_arena_8: "\<not> collision arena 8"
  by (simp add: collision_def advanced_def arena_def apply_action_def
      update_position_def check_collision_def border_walls_def colliderect_def trunc_def
      width_def height_def car_size_def)

lemma distance_arena_8: "distance_moved arena 8 = 0"
  using distance_moved_free [OF no_collision_arena_8]
  by (simp add: apply_action_def arena_def)

lemma no_collision_idle: "\<not> collision (arena\<lparr>stationary_steps := 50\<rparr>) 8"
  by (simp add: collision_def advanced_def arena_def apply_action_def
      update_position_def check_collision_def border_walls_def colliderect_def trunc_def
      width_def height_def car_size_def)

lemma distance_idle: "distance_moved (arena\<lparr>stationary_steps := 50\<rparr>) 8 = 0"
  using distance_moved_free [OF no_collision_idle]
  by (simp add: apply_action_def arena_def)

section \<open>Termination flag\<close>

text \<open>
  Claim C1. For every call of \<open>step\<close>, whatever the action, the returned done flag is true
  exactly when the collision test on the advanced position succeeded, or the step count
  after the step exceeds 1000, or the low-motion counter after the step exceeds 50. The
  step count after the step is the one before plus one; the low-motion counter is the one
  before plus one when the car moved less than 0.5, and zero otherwise.
\<close>

theorem step_done_iff:
  "(done_after s a \<longleftrightarrow>
      check_collision (advanced s a) \<or> steps (env_after s a) > 1000
      \<or> stationary_steps (env_after s a) > 50)
   \<and> steps (env_after s a) = steps s + 1
   \<and> stationary_steps (env_after s a) =
       (if distance_moved s a < 0.5 then stationary_steps s + 1 else 0)"
  by (simp add: step_def done_of_def collision_def steps_next_env stationary_next_env)

text \<open>
  Each disjunct alone ends an episode: a collision at the wall, the step count passing
  1000, the low-motion counter passing 50; and a free step early in an episode does not.
\<close>

theorem step_done_iff_witness:
  "done_after at_wall 0
   \<and> done_after (arena\<lparr>steps := 1000\<rparr>) 0
   \<and> done_after (arena\<lparr>stationary_steps := 50\<rparr>) 8
   \<and> \<not> done_after arena 0"
proof -
  have a: "done_after at_wall 0"
    using step_done_iff [of at_wall 0] collision_at_wall by (simp add: collision_def)
  have b: "done_after (arena\<lparr>steps := 1000\<rparr>) 0"
    using step_done_iff [of "arena\<lparr>steps := 1000\<rparr>" 0] by simp
  have c: "done_after (arena\<lparr>stationary_steps := 50\<rparr>) 8"
    using step_done_iff [of "arena\<lparr>stationary_steps := 50\<rparr>" 8]
    by (simp add: distance_idle)
  have "distance_moved arena 0 = 6"
    using distance_moved_free [OF no_collision_arena_0]
    by (simp add: apply_action_def arena_def)
  then have d: "\<not> done_after arena 0"
    using step_done_iff [of arena 0] no_collision_arena_0
    by (simp add: collision_def) (simp add: arena_def)
  from a b c d show ?thesis by blast
qed

section \<open>Collisions\<close>

text \<open>
  Claim C2. On every step whose collision test succeeds, the position after the step is
  the position before it, the done flag is set, and the reward carries the collision term
  \<open>-10\<close> (beside the proximity, low-motion and speed terms; the movement term is zero).
  A car that was clear of the obstacles and the boundary before the step is still clear
  of them after it.
\<close>

theorem collision_reverts_position:
  assumes "collision s a"
  shows "car_x (env_after s a) = car_x s \<and> car_y (env_after s a) = car_y s
         \<and> done_after s a
         \<and> reward_after s a =
             0 - proximity_penalty (min_list (get_distances (env_after s a))) - 10
             - (if stationary_steps (env_after s a) > 10 then 1 else 0)
             + (if car_speed (env_after s a) \<ge> 3 then 0.1 else 0)
         \<and> (\<not> check_collision s \<longrightarrow> \<not> check_collision (env_after s a))"
  using assms
  by (simp add: step_def car_x_next_env car_y_next_env settled_collision done_of_def
      reward_of_def Let_def distance_moved_collision proximity_penalty_def no_penetration)

theorem collision_reverts_position_witness:
  "collision at_wall 0 \<and> car_x (env_after at_wall 0) = 780 \<and> car_y (env_after at_wall 0) = 300
   \<and> done_after at_wall 0"
  using collision_reverts_position [OF collision_at_wall] collision_at_wall
  by (simp add: at_wall_def arena_def)

text \<open>
  Claim C10. On every colliding step only the position is put back: the heading is the one
  the action produced (turned by 0.1 for the two rotations), and the speed level is the one
  a speed action selected.
\<close>

theorem collision_keeps_heading_and_speed:
  assumes "collision s a"
  shows "car_x (env_after s a) = car_x s \<and> car_y (env_after s a) = car_y s
     \<and> car_angle (env_after s a) =
         (if a = 1 then car_angle s - 0.1 else if a = 2 then car_angle s + 0.1 else car_angle s)
     \<and> car_speed (env_after s a) = (if 3 \<le> a \<and> a \<le> 7 then a - 2 else car_speed s)"
  using assms
  by (simp add: step_def car_x_next_env car_y_next_env settled_collision
      car_angle_next_env car_speed_next_env apply_action_def)

theorem collision_keeps_heading_and_speed_witness:
  "collision turning_at_wall 1 \<and> car_angle (env_after turning_at_wall 1) = 0
   \<and> car_speed (env_after turning_at_wall 1) = 3 \<and> car_x (env_after turning_at_wall 1) = 784"
  using collision_keeps_heading_and_speed [OF collision_turning] collision_turning
  by (simp add: turning_at_wall_def arena_def)

section \<open>Reward\<close>

text \<open>
  Claim C3. On a step without collision, after which the low-motion counter is at most 10
  and the speed level is below 3, the reward is \<open>0.1 * d\<close> minus \<open>5 * (0.2 - m)\<close> when
  \<open>m < 0.2\<close>, where \<open>d\<close> is the distance moved and \<open>m\<close> the least of the three sensor
  readings taken after the step.
\<close>

theorem reward_without_penalties:
  assumes "\<not> collision s a"
    and "stationary_steps (env_after s a) \<le> 10"
    and "car_speed (env_after s a) < 3"
  shows "reward_after s a =
           0.1 * distance_moved s a
           - (if min_list (get_distances (env_after s a)) < 0.2
              then 5 * (0.2 - min_list (get_distances (env_after s a))) else 0)"
  using assms by (simp add: step_def reward_of_def Let_def)

theorem reward_without_penalties_witness:
  "\<not> collision slow_car 0 \<and> stationary_steps (env_after slow_car 0) \<le> 10
   \<and> car_speed (env_after slow_car 0) < 3
   \<and> reward_after slow_car 0 =
       0.4 - (if min_list (get_distances (env_after slow_car 0)) < 0.2
              then 5 * (0.2 - min_list (get_distances (env_after slow_car 0))) else 0)"
proof -
  have st: "stationary_steps (env_after slow_car 0) \<le> 10"
    by (simp add: step_def stationary_next_env distance_slow)
  have sp: "car_speed (env_after slow_car 0) < 3"
    by (simp add: step_def car_speed_next_env apply_action_def slow_car_def arena_def)
  show ?thesis
    using reward_without_penalties [OF no_collision_slow st sp] no_collision_slow st sp
    by (simp add: distance_slow)
qed

section \<open>The ray-cast sensor\<close>


lemma cast_ray_loop_ge:
  "list_all (\<lambda>d. 1 \<le> d) ds \<Longrightarrow> 1 \<le> cast_ray_loop s angle ds"
  by (induction ds) (auto simp: sensor_range_def)


text \<open>A result below the sensor range is a distance of the march at which the ray stopped.\<close>

lemma cast_ray_loop_first_hit:
  "cast_ray_loop s angle ds \<noteq> sensor_range \<Longrightarrow>
   ray_hit s angle (cast_ray_loop s angle ds) \<and> cast_ray_loop s angle ds \<in> set ds"
  by (induction ds) auto


lemma cast_ray_ge: "1 \<le> cast_ray s angle"
  unfolding cast_ray_def by (rule cast_ray_loop_ge) (simp add: list_all_iff)





section \<open>Invariants of the state vector and the speed level\<close>

lemma get_distances_bounds:
  "length (get_distances s) = 3 \<and> list_all (\<lambda>x. 0 \<le> x \<and> x \<le> 1) (get_distances s)"
proof -
  have "0 \<le> real_of_int (min (cast_ray s t) 200) / 200
        \<and> real_of_int (min (cast_ray s t) 200) / 200 \<le> 1" for t
    using cast_ray_ge [of s t] by simp
  then show ?thesis by (simp add: get_distances_def)
qed

lemma get_state_bounds:
  assumes "1 \<le> car_speed s" and "car_speed s \<le> 5"
  shows "length (get_state s) = 4 \<and> list_all (\<lambda>x. 0 \<le> x \<and> x \<le> 1) (get_state s)"
  using assms get_distances_bounds [of s] by (simp add: get_state_def)

lemma speed_apply_action:
  assumes "1 \<le> car_speed s" and "car_speed s \<le> 5"
  shows "1 \<le> car_speed (apply_action s a) \<and> car_speed (apply_action s a) \<le> 5"
  using assms by (simp add: apply_action_def)

lemma step_observed_ok:
  assumes "1 \<le> car_speed s" and "car_speed s \<le> 5"
  shows "observed_ok (env_after s a, state_after s a)"
proof -
  have sp: "1 \<le> car_speed (next_env s a) \<and> car_speed (next_env s a) \<le> 5"
    using speed_apply_action [OF assms] by (simp add: car_speed_next_env)
  then show ?thesis
    using get_state_bounds [of "next_env s a"] by (simp add: observed_ok_def step_def)
qed

lemma play_observed_ok:
  "observed_ok so \<Longrightarrow> observed_ok (play so as)"
proof (induction as arbitrary: so)
  case Nil
  then show ?case by simp
next
  case (Cons a as)
  from Cons.prems have "observed_ok (env_after (fst so) a, state_after (fst so) a)"
    by (intro step_observed_ok) (simp_all add: observed_ok_def)
  then show ?case by (simp add: Cons.IH)
qed

lemma reset_observed_ok: "observed_ok (reset s u)"
proof -
  let ?s' = "fst (reset s u)"
  have sp: "car_speed ?s' = 3" by (simp add: reset_def Let_def)
  then have "length (get_state ?s') = 4 \<and> list_all (\<lambda>x. 0 \<le> x \<and> x \<le> 1) (get_state ?s')"
    by (intro get_state_bounds) simp_all
  moreover have "snd (reset s u) = get_state ?s'" by (simp add: reset_def Let_def)
  ultimately show ?thesis using sp by (simp add: observed_ok_def)
qed

text \<open>
  Claim C6. After \<open>reset\<close> and after every further \<open>step\<close> of an episode, whatever the
  actions, the returned state vector has four components, each in \<open>[0, 1]\<close>, and the
  speed level of the car lies in \<open>[1, 5]\<close>. (An index outside \<open>0..7\<close> leaves the speed
  level as it is, so the statement needs no restriction to valid actions.)
\<close>

theorem state_and_speed_in_range:
  "length (snd (episode s u as)) = 4
   \<and> list_all (\<lambda>x. 0 \<le> x \<and> x \<le> 1) (snd (episode s u as))
   \<and> 1 \<le> car_speed (fst (episode s u as)) \<and> car_speed (fst (episode s u as)) \<le> 5"
  using play_observed_ok [OF reset_observed_ok, of s u as]
  by (simp add: episode_def observed_ok_def)

theorem state_and_speed_in_range_witness:
  "length (snd (episode arena 0 [0, 7])) = 4
   \<and> list_all (\<lambda>x. 0 \<le> x \<and> x \<le> 1) (snd (episode arena 0 [0, 7]))
   \<and> car_speed (fst (episode arena 0 [0, 7])) = 5"
proof -
  have "car_speed (fst (episode arena 0 [0, 7])) = 5"
    by (simp add: episode_def step_def car_speed_next_env apply_action_def)
  then show ?thesis
    using state_and_speed_in_range [of arena 0 "[0, 7]"] by simp
qed

section \<open>reset\<close>

text \<open>Every heading in \<open>[0, 2 * pi)\<close> is the heading of \<open>reset\<close> for some draw.\<close>

lemma reset_heading_onto:
  assumes "0 \<le> t" and "t < 2 * pi"
  shows "\<exists>u. 0 \<le> u \<and> u < 1 \<and> car_angle (fst (reset s u)) = t"
proof (intro exI conjI)
  show "0 \<le> t / (2 * pi)" using assms by simp
  show "t / (2 * pi) < 1" using assms by simp
  show "car_angle (fst (reset s (t / (2 * pi)))) = t"
    by (simp add: reset_def Let_def uniform_def)
qed

text \<open>
  Claim C9. For every draw \<open>u\<close> in \<open>[0, 1)\<close> of the random source, \<open>reset\<close> puts the car
  at the arena centre \<open>(400, 300)\<close> with speed level 3, velocity 0 and the heading
  \<open>2 * pi * u\<close>, which lies in \<open>[0, 2 * pi)\<close>; it zeroes the step count, the total
  distance and the low-motion counter, returns the state vector of the new environment,
  and leaves the obstacles as they were. The constructor is what generates them.
  (The heading is an affine image of the draw; that the draw is uniform is a property of
  the random source, outside this model.)
\<close>

theorem reset_effect:
  assumes "0 \<le> u" and "u < 1"
  shows "car_x (fst (reset s u)) = real_of_int (width div 2)
     \<and> car_y (fst (reset s u)) = real_of_int (height div 2)
     \<and> car_x (fst (reset s u)) = 400 \<and> car_y (fst (reset s u)) = 300
     \<and> car_speed (fst (reset s u)) = 3
     \<and> car_velocity (fst (reset s u)) = 0
     \<and> car_angle (fst (reset s u)) = 2 * pi * u
     \<and> 0 \<le> car_angle (fst (reset s u)) \<and> car_angle (fst (reset s u)) < 2 * pi
     \<and> steps (fst (reset s u)) = 0
     \<and> total_distance (fst (reset s u)) = 0
     \<and> stationary_steps (fst (reset s u)) = 0
     \<and> snd (reset s u) = get_state (fst (reset s u))
     \<and> obstacles (fst (reset s u)) = obstacles s
     \<and> obstacles (init draws u) = generate_obstacles draws"
  using assms
  by (simp add: reset_def Let_def width_def height_def uniform_def init_def)

theorem reset_effect_witness:
  "(0::real) \<le> 1/4 \<and> (1/4::real) < 1
   \<and> car_x (fst (reset arena (1/4))) = 400 \<and> car_y (fst (reset arena (1/4))) = 300
   \<and> car_angle (fst (reset arena (1/4))) = pi / 2
   \<and> obstacles (fst (reset arena (1/4))) = border_walls"
proof -
  have lo: "(0::real) \<le> 1/4" and hi: "(1/4::real) < 1" by simp_all
  show ?thesis
    using reset_effect [OF lo hi, of arena "[]"]
    by (simp add: arena_def)
qed

section \<open>Driving forward\<close>






section \<open>Action indices outside the action set\<close>

lemma apply_action_invalid:
  assumes "a < 0 \<or> 7 < a"
  shows "apply_action s a = s"
  using assms
proof
  assume "a < 0"
  then show ?thesis by (simp add: apply_action_def)
next
  assume "7 < a"
  then show ?thesis by (simp add: apply_action_def)
qed

lemma advanced_invalid:
  assumes "a < 0 \<or> 7 < a"
  shows "car_x (advanced s a) = car_x s + car_velocity s * cos (car_angle s)
       \<and> car_y (advanced s a) = car_y s + car_velocity s * sin (car_angle s)"
  by (simp add: advanced_def apply_action_invalid [OF assms] update_position_def)

text \<open>
  Claim C5 as stated fails: with the index 8, \<open>step\<close> on the fresh arena raises nothing.
  It returns as usual, the step counted, the car where it was (its velocity was 0), the
  episode not ended.
\<close>

theorem step_invalid_action_counterexample:
  "\<not> isl (step_call arena 8) \<and> steps (env_after arena 8) = 1
   \<and> car_x (env_after arena 8) = 400 \<and> car_y (env_after arena 8) = 300
   \<and> car_speed (env_after arena 8) = 3 \<and> \<not> done_after arena 8"
proof -
  have same: "apply_action arena 8 = arena"
    by (simp add: apply_action_def)
  have call: "\<not> isl (step_call arena 8)"
    by (simp add: step_call_def)
  have cnt: "steps (env_after arena 8) = 1"
    by (simp add: step_def steps_next_env) (simp add: arena_def)
  have pos: "car_x (env_after arena 8) = 400 \<and> car_y (env_after arena 8) = 300"
    using no_collision_arena_8
    by (simp add: step_def car_x_next_env car_y_next_env settled_def advanced_def
        update_position_def apply_action_def) (simp add: arena_def)
  have sp: "car_speed (env_after arena 8) = 3"
    by (simp add: step_def car_speed_next_env same) (simp add: arena_def)
  have fin: "\<not> done_after arena 8"
    using no_collision_arena_8
    by (simp add: step_def done_of_def steps_next_env stationary_next_env distance_arena_8)
       (simp add: arena_def)
  from call cnt pos sp fin show ?thesis by blast
qed

text \<open>
  Claim C5, amended. For every action index outside \<open>0..7\<close>, \<open>step\<close> returns normally:
  no branch of the action mapping applies, so heading, speed level and velocity keep the
  values of the previous step, the step is counted, and without a collision the car
  moves on by that earlier velocity.
\<close>

theorem step_invalid_action:
  assumes "a < 0 \<or> 7 < a"
  shows "step_call s a = Inr (step s a)
     \<and> apply_action s a = s
     \<and> car_angle (env_after s a) = car_angle s
     \<and> car_speed (env_after s a) = car_speed s
     \<and> car_velocity (env_after s a) = car_velocity s
     \<and> steps (env_after s a) = steps s + 1
     \<and> (\<not> collision s a \<longrightarrow>
          car_x (env_after s a) = car_x s + car_velocity s * cos (car_angle s)
        \<and> car_y (env_after s a) = car_y s + car_velocity s * sin (car_angle s))"
proof -
  note same = apply_action_invalid [OF assms]
  have frame: "car_angle (env_after s a) = car_angle s
     \<and> car_speed (env_after s a) = car_speed s
     \<and> car_velocity (env_after s a) = car_velocity s
     \<and> steps (env_after s a) = steps s + 1"
    by (simp add: step_def same car_angle_next_env car_speed_next_env
        car_velocity_next_env steps_next_env)
  have pos: "car_x (env_after s a) = car_x s + car_velocity s * cos (car_angle s)
        \<and> car_y (env_after s a) = car_y s + car_velocity s * sin (car_angle s)"
    if "\<not> collision s a"
    using that advanced_invalid [OF assms, of s]
    by (simp add: step_def car_x_next_env car_y_next_env settled_def)
  from same frame pos show ?thesis
    by (simp add: step_call_def)
qed

theorem step_invalid_action_witness:
  "((8::int) < 0 \<or> 7 < (8::int)) \<and> step_call arena 8 = Inr (step arena 8)
   \<and> car_velocity (env_after arena 8) = 0 \<and> steps (env_after arena 8) = 1"
  using step_invalid_action [of 8 arena]
  by (simp add: arena_def)

section \<open>Training indices against deployment commands\<close>

text \<open>
  Claim C7 compared on the code. In training the indices \<open>3, \<dots>, 7\<close> select the speed
  levels \<open>1, \<dots>, 5\<close>. The deployment map sends \<open>S\<close> (backward) for index 3 and the
  commands \<open>1, \<dots>, 4\<close> for the indices \<open>4, \<dots>, 7\<close>, which set the speeds \<open>1, \<dots>, 4\<close>:
  one level below what training meant, at every such index. Speed 5 is sent for index 8,
  which training does not have.
\<close>

theorem action_map_against_training:
  "map (\<lambda>a. car_speed (env_after s a)) [3, 4, 5, 6, 7] = [1, 2, 3, 4, 5]
   \<and> map action_map [3, 4, 5, 6, 7]
       = [Some ''S'', Some ''1'', Some ''2'', Some ''3'', Some ''4'']
   \<and> map (send_command_speed c) [''S'', ''1'', ''2'', ''3'', ''4''] = [c, 1, 2, 3, 4]
   \<and> action_map 8 = Some ''5''"
  by (simp add: step_def car_speed_next_env apply_action_def action_map_def
      send_command_speed_def py_int_def)

end
